theory Spec2Isabelle
  imports Complex_Main
begin

section \<open>Data model\<close>

text \<open>
  The snapshot of the application, as the JSDoc typedefs of the source give it:
  a course owns an ordered list of book references, a class is bound to a course by id,
  a student is bound to a class by id and carries the list of delivered ISBNs.
  Identifiers are strings; a selection field is an identifier or \<open>null\<close> (\<open>None\<close>).
\<close>

record libro =
  isbn :: string
  title :: string

record curso =
  curso_id :: string
  curso_nombre :: string
  libros :: "libro list"

record clase =
  clase_id :: string
  clase_nombre :: string
  clase_cursoId :: string

record alumno =
  alumno_id :: string
  alumno_nombre :: string
  alumno_claseId :: string
  librosEntregados :: "string list"

record seleccion_t =
  cursoId :: "string option"
  claseId :: "string option"
  alumnoId :: "string option"

record estado =
  cursos :: "curso list"
  clases :: "clase list"
  alumnos :: "alumno list"
  seleccion :: seleccion_t

text \<open>The snapshot that \<open>loadState\<close> and \<open>RESET_STATE\<close> build: no entities, nothing selected.\<close>

definition estado_vacio :: estado where
  "estado_vacio =
     \<lparr>cursos = [], clases = [], alumnos = [],
      seleccion = \<lparr>cursoId = None, claseId = None, alumnoId = None\<rparr>\<rparr>"

section \<open>Actions\<close>

text \<open>
  One constructor per \<open>case\<close> of the reducer's \<open>switch\<close>, carrying the payload fields the
  case reads; \<open>OTRA\<close> stands for any other \<open>action.type\<close> (the \<open>default\<close> branch).
  The title of \<open>ADD_LIBRO_A_CURSO\<close> may be omitted (\<open>None\<close>).
\<close>

datatype accion =
    ADD_CURSO string
  | DEL_CURSO string
  | ADD_LIBRO_A_CURSO string string "string option"
  | DEL_LIBRO_DE_CURSO string string
  | REORDER_LIBROS string string string
  | ADD_CLASE string string
  | DEL_CLASE string
  | ADD_ALUMNO string string
  | DEL_ALUMNO string
  | SELECT_CURSO "string option"
  | SELECT_CLASE "string option"
  | SELECT_ALUMNO "string option"
  | MARCAR_LIBRO string string
  | DESMARCAR_LIBRO string string
  | IMPORT_STATE estado
  | RESET_STATE
  | OTRA string

section \<open>String utilities of the host language\<close>

text \<open>
  \<open>String.prototype.trim\<close>: white space and line terminators are removed at both ends.
  Characters here are single bytes, so the white space of the Latin-1 range is what is
  modelled: TAB, LF, VT, FF, CR, SPACE and NBSP.
\<close>

definition es_blanco :: "char \<Rightarrow> bool" where
  "es_blanco c \<longleftrightarrow> c \<in> set [CHR 0x09, CHR 0x0A, CHR 0x0B, CHR 0x0C, CHR 0x0D, CHR 0x20, CHR 0xA0]"

definition trim :: "string \<Rightarrow> string" where
  "trim s = rev (dropWhile es_blanco (rev (dropWhile es_blanco s)))"

text \<open>\<open>Array.prototype.findIndex\<close>: the first index whose element satisfies the test; the
  source's \<open>-1\<close> is \<open>None\<close>.\<close>

fun findIndex :: "('a \<Rightarrow> bool) \<Rightarrow> 'a list \<Rightarrow> nat option" where
  "findIndex P [] = None"
| "findIndex P (x # xs) = (if P x then Some 0 else map_option Suc (findIndex P xs))"

section \<open>The reducer\<close>

text \<open>The callbacks that the reducer maps over the collections, one per \<open>case\<close>.\<close>

definition agregar_libro :: "string \<Rightarrow> string \<Rightarrow> string option \<Rightarrow> curso \<Rightarrow> curso" where
  "agregar_libro cid i t c =
     (if curso_id c \<noteq> cid then c
      else if (\<exists>l \<in> set (libros c). isbn l = i) then c
      else c\<lparr>libros := libros c @
             [\<lparr>isbn = i,
               title = (case t of None \<Rightarrow> ''Libro '' @ i
                        | Some tt \<Rightarrow> if tt = [] then ''Libro '' @ i else tt)\<rparr>]\<rparr>)"

definition quitar_libro :: "string \<Rightarrow> string \<Rightarrow> curso \<Rightarrow> curso" where
  "quitar_libro cid i c =
     (if curso_id c \<noteq> cid then c
      else c\<lparr>libros := filter (\<lambda>l. isbn l \<noteq> i) (libros c)\<rparr>)"

definition reordenar_libros :: "string \<Rightarrow> string \<Rightarrow> string \<Rightarrow> curso \<Rightarrow> curso" where
  "reordenar_libros cid i direction c =
     (if curso_id c \<noteq> cid then c
      else case findIndex (\<lambda>l. isbn l = i) (libros c) of
        None \<Rightarrow> c
      | Some index \<Rightarrow>
          (let newLibros = libros c in
           if direction = ''up'' \<and> index > 0 then
             c\<lparr>libros := newLibros[index - 1 := newLibros ! index,
                                    index := newLibros ! (index - 1)]\<rparr>
           else if direction = ''down'' \<and> int index < int (length newLibros) - 1 then
             c\<lparr>libros := newLibros[index + 1 := newLibros ! index,
                                    index := newLibros ! (index + 1)]\<rparr>
           else c\<lparr>libros := newLibros\<rparr>))"

definition marcar :: "string \<Rightarrow> string \<Rightarrow> alumno \<Rightarrow> alumno" where
  "marcar aid barcode a =
     (if alumno_id a \<noteq> aid then a
      else if barcode \<in> set (librosEntregados a) then a
      else a\<lparr>librosEntregados := librosEntregados a @ [barcode]\<rparr>)"

definition desmarcar :: "string \<Rightarrow> string \<Rightarrow> alumno \<Rightarrow> alumno" where
  "desmarcar aid barcode a =
     (if alumno_id a = aid
      then a\<lparr>librosEntregados := filter (\<lambda>b. b \<noteq> barcode) (librosEntregados a)\<rparr>
      else a)"

text \<open>
  \<open>reducer uid state action\<close>. The source calls \<open>uid()\<close>, which draws on the clock and a
  random number; the string it returns on this call is the first argument.
\<close>

fun reducer :: "string \<Rightarrow> estado \<Rightarrow> accion \<Rightarrow> estado" where
  "reducer uid s (ADD_CURSO payload) =
     (let nuevo = \<lparr>curso_id = uid, curso_nombre = trim payload, libros = []\<rparr>
      in s\<lparr>cursos := cursos s @ [nuevo],
           seleccion := (seleccion s)\<lparr>cursoId := Some (curso_id nuevo)\<rparr>\<rparr>)"
| "reducer uid s (DEL_CURSO cid) =
     s\<lparr>cursos := filter (\<lambda>c. curso_id c \<noteq> cid) (cursos s),
       seleccion := (seleccion s)\<lparr>cursoId :=
          (if cursoId (seleccion s) = Some cid then None else cursoId (seleccion s))\<rparr>\<rparr>"
| "reducer uid s (ADD_LIBRO_A_CURSO cid i t) =
     s\<lparr>cursos := map (agregar_libro cid i t) (cursos s)\<rparr>"
| "reducer uid s (DEL_LIBRO_DE_CURSO cid i) =
     s\<lparr>cursos := map (quitar_libro cid i) (cursos s)\<rparr>"
| "reducer uid s (REORDER_LIBROS cid i direction) =
     s\<lparr>cursos := map (reordenar_libros cid i direction) (cursos s)\<rparr>"
| "reducer uid s (ADD_CLASE cid nombre) =
     (let nueva = \<lparr>clase_id = uid, clase_nombre = trim nombre, clase_cursoId = cid\<rparr>
      in s\<lparr>clases := clases s @ [nueva]\<rparr>)"
| "reducer uid s (DEL_CLASE kid) =
     s\<lparr>clases := filter (\<lambda>c. clase_id c \<noteq> kid) (clases s),
       seleccion := (seleccion s)\<lparr>claseId :=
          (if claseId (seleccion s) = Some kid then None else claseId (seleccion s))\<rparr>\<rparr>"
| "reducer uid s (ADD_ALUMNO kid nombre) =
     (let nuevo = \<lparr>alumno_id = uid, alumno_nombre = trim nombre, alumno_claseId = kid,
                   librosEntregados = []\<rparr>
      in s\<lparr>alumnos := alumnos s @ [nuevo],
           seleccion := (seleccion s)\<lparr>alumnoId := Some (alumno_id nuevo)\<rparr>\<rparr>)"
| "reducer uid s (DEL_ALUMNO aid) =
     s\<lparr>alumnos := filter (\<lambda>a. alumno_id a \<noteq> aid) (alumnos s),
       seleccion := (seleccion s)\<lparr>alumnoId :=
          (if alumnoId (seleccion s) = Some aid then None else alumnoId (seleccion s))\<rparr>\<rparr>"
| "reducer uid s (SELECT_CURSO payload) =
     s\<lparr>seleccion := (seleccion s)\<lparr>cursoId := payload, claseId := None, alumnoId := None\<rparr>\<rparr>"
| "reducer uid s (SELECT_CLASE payload) =
     s\<lparr>seleccion := (seleccion s)\<lparr>claseId := payload, alumnoId := None\<rparr>\<rparr>"
| "reducer uid s (SELECT_ALUMNO payload) =
     s\<lparr>seleccion := (seleccion s)\<lparr>alumnoId := payload\<rparr>\<rparr>"
| "reducer uid s (MARCAR_LIBRO aid barcode) =
     s\<lparr>alumnos := map (marcar aid barcode) (alumnos s)\<rparr>"
| "reducer uid s (DESMARCAR_LIBRO aid barcode) =
     s\<lparr>alumnos := map (desmarcar aid barcode) (alumnos s)\<rparr>"
| "reducer uid s (IMPORT_STATE payload) = payload"
| "reducer uid s RESET_STATE = estado_vacio"
| "reducer uid s (OTRA t) = s"

text \<open>A run of the application: each dispatched action comes with the identifier that
  \<open>uid()\<close> would return while the reducer handles it.\<close>

fun ejecutar :: "estado \<Rightarrow> (string \<times> accion) list \<Rightarrow> estado" where
  "ejecutar s [] = s"
| "ejecutar s ((u, a) # rest) = ejecutar (reducer u s a) rest"

section \<open>Loading the scanning library: locator sanitization\<close>

definition ZXING_ESM_URL :: string where
  "ZXING_ESM_URL = ''https://cdn.jsdelivr.net/npm/@zxing/browser@0.1.5/esm/index.js''"

text \<open>
  \<open>out.replace(/https:\/\/cdn\.jsdelivr\.net\/npm\/https:\/\/cdn\.jsdelivr\.net\/npm\//, r)\<close>:
  every character of the pattern is a literal, and there is no \<open>g\<close> flag, so the
  leftmost occurrence of the literal text is replaced and the rest is kept.
\<close>

fun replace_literal :: "string \<Rightarrow> string \<Rightarrow> string \<Rightarrow> string" where
  "replace_literal pat rep [] = (if pat = [] then rep else [])"
| "replace_literal pat rep (c # cs) =
     (if take (length pat) (c # cs) = pat then rep @ drop (length pat) (c # cs)
      else c # replace_literal pat rep cs)"

text \<open>
  \<open>out.replace(/\/+esm$/, "")\<close>. In the pattern the \<open>+\<close> is a quantifier on the escaped
  slash: it matches one or more \<open>/\<close>, then the letters \<open>esm\<close>, then the end of the input.
  \<open>match_slashes_esm\<close> says that the pattern matches the whole of the remaining input;
  the search tries every start position from the left and deletes the first match.
\<close>

definition match_slashes_esm :: "string \<Rightarrow> bool" where
  "match_slashes_esm s \<longleftrightarrow>
     (case s of [] \<Rightarrow> False
      | c # cs \<Rightarrow> c = CHR ''/'' \<and> dropWhile (\<lambda>d. d = CHR ''/'') cs = ''esm'')"

fun replace_slashes_esm :: "string \<Rightarrow> string" where
  "replace_slashes_esm [] = []"
| "replace_slashes_esm (c # cs) =
     (if match_slashes_esm (c # cs) then [] else c # replace_slashes_esm cs)"

text \<open>\<open>sanitizeCdnUrl\<close>; the empty string is the falsy input of \<open>if (!url)\<close>.\<close>

definition sanitizeCdnUrl :: "string \<Rightarrow> string" where
  "sanitizeCdnUrl url =
     (if url = [] then ZXING_ESM_URL
      else replace_slashes_esm
             (replace_literal
                ''https://cdn.jsdelivr.net/npm/https://cdn.jsdelivr.net/npm/''
                ''https://cdn.jsdelivr.net/npm/'' url))"

section \<open>The scanner's duplicate filter\<close>

text \<open>
  \<open>ultimoLeidoRef.current\<close>: the last accepted code and the time of its acceptance, in
  milliseconds as \<open>Date.now()\<close> gives them. It starts as \<open>{ code: "", ts: 0 }\<close>.
\<close>

record ultimoLeido =
  code :: string
  ts :: int

definition ultimoLeido_inicial :: ultimoLeido where
  "ultimoLeido_inicial = \<lparr>code = [], ts = 0\<rparr>"

text \<open>The test of the decode callback: \<open>code && (code !== last.code || now - last.ts > 2500)\<close>.\<close>

definition acepta :: "ultimoLeido \<Rightarrow> string \<Rightarrow> int \<Rightarrow> bool" where
  "acepta u c now \<longleftrightarrow> c \<noteq> [] \<and> (c \<noteq> code u \<or> now - ts u > 2500)"

text \<open>
  One call of the callback of \<open>decodeFromStream\<close> with a result (\<open>None\<close> when the decoder
  reports no result) at time \<open>now\<close>: the new value of the reference and the codes handed
  to \<open>onDetect\<close>.
\<close>

definition decode_callback :: "ultimoLeido \<Rightarrow> string option \<Rightarrow> int \<Rightarrow> ultimoLeido \<times> string list" where
  "decode_callback u result now =
     (case result of
        None \<Rightarrow> (u, [])
      | Some c \<Rightarrow> if acepta u c now then (\<lparr>code = c, ts = now\<rparr>, [c]) else (u, []))"

text \<open>A burst of decodes, each with its time stamp: all the codes handed to \<open>onDetect\<close>.\<close>

fun escanear :: "ultimoLeido \<Rightarrow> (string \<times> int) list \<Rightarrow> string list" where
  "escanear u [] = []"
| "escanear u ((c, now) # rest) =
     (case decode_callback u (Some c) now of (u', ds) \<Rightarrow> ds @ escanear u' rest)"

section \<open>Notices and the scan flow of the control section\<close>

datatype tipo_msg = Success | Error

record mensaje =
  text_msg :: string
  tipo :: tipo_msg

text \<open>The derived values of \<open>SeccionControl\<close> (its \<open>useMemo\<close> hooks).\<close>

definition claseSel :: "estado \<Rightarrow> clase option" where
  "claseSel s = List.find (\<lambda>c. Some (clase_id c) = claseId (seleccion s)) (clases s)"

definition alumnosEnClase :: "estado \<Rightarrow> alumno list" where
  "alumnosEnClase s = filter (\<lambda>a. Some (alumno_claseId a) = claseId (seleccion s)) (alumnos s)"

definition alumnoSel :: "estado \<Rightarrow> alumno option" where
  "alumnoSel s = List.find (\<lambda>a. Some (alumno_id a) = alumnoId (seleccion s)) (alumnosEnClase s)"

definition cursoDeClase :: "estado \<Rightarrow> curso option" where
  "cursoDeClase s =
     List.find (\<lambda>c. Some (curso_id c) = map_option clase_cursoId (claseSel s)) (cursos s)"

text \<open>
  \<open>handleScan\<close> of \<open>SeccionControl\<close>, on the selected student and the course of the
  selected class: the actions dispatched and the notice set, if any.
\<close>

definition handleScan :: "alumno option \<Rightarrow> curso option \<Rightarrow> string \<Rightarrow> accion list \<times> mensaje option" where
  "handleScan alSel cursoCl barcode =
     (case (alSel, cursoCl) of
        (Some a, Some c) \<Rightarrow>
          (case List.find (\<lambda>l. isbn l = barcode) (libros c) of
             Some libroRequerido \<Rightarrow>
               ([MARCAR_LIBRO (alumno_id a) barcode],
                Some \<lparr>text_msg = [CHR 0x22] @ title libroRequerido @ [CHR 0x22] @ '' marcado.'',
                      tipo = Success\<rparr>)
           | None \<Rightarrow>
               ([], Some \<lparr>text_msg = ''Libro no encontrado en la lista del curso.'',
                          tipo = Error\<rparr>))
      | _ \<Rightarrow> ([], None))"

section \<open>Deleting a course from the management section\<close>

text \<open>\<open>confirmarBorradoCurso\<close>: the in-use guard of the caller, then the dispatch.\<close>

definition confirmarBorradoCurso :: "estado \<Rightarrow> curso \<Rightarrow> accion list \<times> mensaje option" where
  "confirmarBorradoCurso s c =
     (if (\<exists>k \<in> set (clases s). clase_cursoId k = curso_id c)
      then ([], Some \<lparr>text_msg = ''No se puede borrar un curso que est'' @ [CHR 0xE1] @
                         '' en uso por una clase.'', tipo = Error\<rparr>)
      else ([DEL_CURSO (curso_id c)], None))"

section \<open>Import\<close>

text \<open>
  A value as \<open>JSON.parse\<close> returns it. An object is the list of its own properties, each
  key once. A parsed number is taken as a rational; it is falsy when it is zero (the
  parser yields no NaN).
\<close>

datatype json =
    JNull
  | JBool bool
  | JNum rat
  | JStr string
  | JArr "json list"
  | JObj "(string \<times> json) list"

text \<open>Truthiness of a value, and of the result of a property read (\<open>None\<close> is \<open>undefined\<close>).\<close>

fun truthy :: "json \<Rightarrow> bool" where
  "truthy JNull = False"
| "truthy (JBool b) = b"
| "truthy (JNum n) = (n \<noteq> 0)"
| "truthy (JStr s) = (s \<noteq> [])"
| "truthy (JArr xs) = True"
| "truthy (JObj ps) = True"

text \<open>
  \<open>parsed.name\<close> for one of the names \<open>cursos\<close>, \<open>clases\<close>, \<open>alumnos\<close>: only an object can
  have such a property; on every other non-null value the read gives \<open>undefined\<close>.
\<close>

fun leer_prop :: "json \<Rightarrow> string \<Rightarrow> json option" where
  "leer_prop (JObj ps) k = map_of ps k"
| "leer_prop _ k = None"

definition truthy_prop :: "json \<Rightarrow> string \<Rightarrow> bool" where
  "truthy_prop v k = (case leer_prop v k of None \<Rightarrow> False | Some x \<Rightarrow> truthy x)"

text \<open>
  The \<open>onload\<close> handler of \<open>importarJSON\<close>. Its input is the outcome of \<open>JSON.parse\<close> on
  the file's text: \<open>Inl m\<close> when the parser throws an error with message \<open>m\<close>, \<open>Inr v\<close> when
  it returns \<open>v\<close>. The snapshot is untyped in the source, where the payload object itself
  becomes the state; \<open>como_estado\<close> is the snapshot that a payload denotes.
\<close>

definition importarJSON :: "(json \<Rightarrow> estado) \<Rightarrow> string + json \<Rightarrow> accion list \<times> mensaje" where
  "importarJSON como_estado r =
     (case r of
        Inl m \<Rightarrow> ([], \<lparr>text_msg = ''Error al importar: '' @ m, tipo = Error\<rparr>)
      | Inr parsed \<Rightarrow>
          if \<not> truthy parsed \<or> \<not> truthy_prop parsed ''cursos'' \<or>
             \<not> truthy_prop parsed ''clases'' \<or> \<not> truthy_prop parsed ''alumnos''
          then ([], \<lparr>text_msg = ''Error al importar: '' @ ''Formato no v'' @ [CHR 0xE1] @ ''lido.'',
                     tipo = Error\<rparr>)
          else ([IMPORT_STATE (como_estado parsed)],
                \<lparr>text_msg = ''Datos importados correctamente.'', tipo = Success\<rparr>))"

text \<open>The application after the handler ran: every dispatched action goes through the reducer.\<close>

definition app_importar :: "(json \<Rightarrow> estado) \<Rightarrow> string \<Rightarrow> estado \<Rightarrow> string + json \<Rightarrow> estado \<times> mensaje" where
  "app_importar como_estado uid s r =
     (case importarJSON como_estado r of (acciones, m) \<Rightarrow> (foldl (reducer uid) s acciones, m))"

section \<open>Properties of snapshots\<close>

text \<open>
  The strict hierarchy of the selection, as the specification words it: a selected class
  needs a selected course and must exist and belong to it; a selected student needs a
  selected class and must exist and belong to it.
\<close>

definition seleccion_jerarquica :: "estado \<Rightarrow> bool" where
  "seleccion_jerarquica s =
     ((case claseId (seleccion s) of
         None \<Rightarrow> True
       | Some k \<Rightarrow>
           (case cursoId (seleccion s) of
              None \<Rightarrow> False
            | Some c \<Rightarrow> list_ex (\<lambda>x. clase_id x = k \<and> clase_cursoId x = c) (clases s)))
      \<and>
      (case alumnoId (seleccion s) of
         None \<Rightarrow> True
       | Some a \<Rightarrow>
           (case claseId (seleccion s) of
              None \<Rightarrow> False
            | Some k \<Rightarrow> list_ex (\<lambda>x. alumno_id x = a \<and> alumno_claseId x = k) (alumnos s))))"

text \<open>No two book references of one course share an ISBN.\<close>

definition isbn_unicos :: "estado \<Rightarrow> bool" where
  "isbn_unicos s = list_all (\<lambda>c. distinct (map isbn (libros c))) (cursos s)"

text \<open>No delivered list holds an ISBN twice.\<close>

definition entregados_sin_duplicados :: "estado \<Rightarrow> bool" where
  "entregados_sin_duplicados s = list_all (\<lambda>a. distinct (librosEntregados a)) (alumnos s)"

section \<open>A sample snapshot\<close>

text \<open>
  The snapshot that the embedded test runner builds (\<open>ejecutarPruebas\<close>, case 3) before it
  marks the book, with a second course, class and student beside it. The identifiers
  stand for the strings that \<open>uid()\<close> returned.
\<close>

definition estado_prueba :: estado where
  "estado_prueba =
     \<lparr>cursos =
        [\<lparr>curso_id = ''c1'', curso_nombre = ''Prueba Curso'',
          libros = [\<lparr>isbn = ''9788499890944'', title = ''El Quijote''\<rparr>,
                    \<lparr>isbn = ''9780000000001'', title = ''Atlas''\<rparr>]\<rparr>,
         \<lparr>curso_id = ''c2'', curso_nombre = ''Otro Curso'', libros = []\<rparr>],
      clases =
        [\<lparr>clase_id = ''k1'', clase_nombre = ''1A'', clase_cursoId = ''c1''\<rparr>,
         \<lparr>clase_id = ''k2'', clase_nombre = ''2B'', clase_cursoId = ''c2''\<rparr>],
      alumnos =
        [\<lparr>alumno_id = ''a1'', alumno_nombre = ''Ana'', alumno_claseId = ''k1'',
          librosEntregados = []\<rparr>,
         \<lparr>alumno_id = ''a2'', alumno_nombre = ''Mara'', alumno_claseId = ''k1'',
          librosEntregados = [''9780000000001'']\<rparr>],
      seleccion = \<lparr>cursoId = Some ''c1'', claseId = Some ''k1'', alumnoId = Some ''a1''\<rparr>\<rparr>"

text \<open>
  Two snapshots of the shape that \<open>IMPORT_STATE\<close> and \<open>loadState\<close> accept without
  looking inside the collections: a course that lists one ISBN twice, and a student whose
  delivered list holds one ISBN twice.
\<close>

definition estado_isbn_repetido :: estado where
  "estado_isbn_repetido =
     \<lparr>cursos =
        [\<lparr>curso_id = ''c1'', curso_nombre = ''Prueba Curso'',
          libros = [\<lparr>isbn = ''9788499890944'', title = ''El Quijote''\<rparr>,
                    \<lparr>isbn = ''9780000000001'', title = ''Atlas''\<rparr>,
                    \<lparr>isbn = ''9788499890944'', title = ''Don Quijote''\<rparr>]\<rparr>],
      clases = [], alumnos = [],
      seleccion = \<lparr>cursoId = None, claseId = None, alumnoId = None\<rparr>\<rparr>"

definition estado_entrega_repetida :: estado where
  "estado_entrega_repetida =
     \<lparr>cursos = [], clases = [],
      alumnos =
        [\<lparr>alumno_id = ''a1'', alumno_nombre = ''Ana'', alumno_claseId = ''k1'',
          librosEntregados = [''9788499890944'', ''9788499890944'']\<rparr>],
      seleccion = \<lparr>cursoId = None, claseId = None, alumnoId = None\<rparr>\<rparr>"

section \<open>Auxiliary facts\<close>

lemma marcar_frame:
  "alumno_id (marcar aid b a) = alumno_id a"
  "alumno_nombre (marcar aid b a) = alumno_nombre a"
  "alumno_claseId (marcar aid b a) = alumno_claseId a"
  "alumno_id a \<noteq> aid \<Longrightarrow> marcar aid b a = a"
  by (simp_all add: marcar_def)

lemma desmarcar_frame:
  "alumno_id (desmarcar aid b a) = alumno_id a"
  "alumno_nombre (desmarcar aid b a) = alumno_nombre a"
  "alumno_claseId (desmarcar aid b a) = alumno_claseId a"
  "alumno_id a \<noteq> aid \<Longrightarrow> desmarcar aid b a = a"
  by (simp_all add: desmarcar_def)

lemma map_sin_objetivo:
  assumes "\<And>a. a \<in> set xs \<Longrightarrow> f a = a"
  shows "map f xs = xs"
  using assms by (induction xs) auto

lemma marcar_sin_alumno:
  assumes "\<forall>x \<in> set (alumnos s). alumno_id x \<noteq> aid"
  shows "reducer u s (MARCAR_LIBRO aid b) = s"
proof -
  have "map (marcar aid b) (alumnos s) = alumnos s"
    by (rule map_sin_objetivo) (simp add: marcar_frame assms)
  then show ?thesis by simp
qed

lemma desmarcar_sin_alumno:
  assumes "\<forall>x \<in> set (alumnos s). alumno_id x \<noteq> aid"
  shows "reducer u s (DESMARCAR_LIBRO aid b) = s"
proof -
  have "map (desmarcar aid b) (alumnos s) = alumnos s"
    by (rule map_sin_objetivo) (simp add: desmarcar_frame assms)
  then show ?thesis by simp
qed

lemma sin_alumno_tras_borrar:
  "\<forall>x \<in> set (alumnos (reducer u s (DEL_ALUMNO aid))). alumno_id x \<noteq> aid"
  by simp

lemma ejecutar_append: "ejecutar s (xs @ ys) = ejecutar (ejecutar s xs) ys"
  by (induction s xs rule: ejecutar.induct) simp_all

lemma marcar_presente:
  "alumno_id a = aid \<Longrightarrow> b \<in> set (librosEntregados (marcar aid b a))"
  by (simp add: marcar_def)

lemma desmarcar_ausente:
  "alumno_id a = aid \<Longrightarrow> b \<notin> set (librosEntregados (desmarcar aid b a))"
  by (simp add: desmarcar_def)

lemma marcar_idem: "marcar aid b (marcar aid b a) = marcar aid b a"
  by (simp add: marcar_def)

lemma marcar_noop: "(alumno_id a = aid \<longrightarrow> b \<in> set (librosEntregados a)) \<Longrightarrow> marcar aid b a = a"
  by (simp add: marcar_def)

lemma marcar_distinct:
  "distinct (librosEntregados a) \<Longrightarrow> distinct (librosEntregados (marcar aid b a))"
  by (simp add: marcar_def)

lemma desmarcar_distinct:
  "distinct (librosEntregados a) \<Longrightarrow> distinct (librosEntregados (desmarcar aid b a))"
  by (simp add: desmarcar_def)

lemma paso_marca_miembro:
  assumes "x = MARCAR_LIBRO aid b \<or> x = DESMARCAR_LIBRO aid b"
    and "a \<in> set (alumnos (reducer u s x))" and "alumno_id a = aid"
  shows "b \<in> set (librosEntregados a) \<longleftrightarrow> x = MARCAR_LIBRO aid b"
  using assms(1)
proof
  assume x: "x = MARCAR_LIBRO aid b"
  with assms(2) obtain a0 where "a = marcar aid b a0" by auto
  with assms(3) have "b \<in> set (librosEntregados a)"
    using marcar_presente [of a0 aid b] by (simp add: marcar_frame)
  with x show ?thesis by simp
next
  assume x: "x = DESMARCAR_LIBRO aid b"
  with assms(2) obtain a0 where "a = desmarcar aid b a0" by auto
  with assms(3) have "b \<notin> set (librosEntregados a)"
    using desmarcar_ausente [of a0 aid b] by (simp add: desmarcar_frame)
  with x show ?thesis by simp
qed

lemma paso_marca_ids:
  assumes "x = MARCAR_LIBRO aid b \<or> x = DESMARCAR_LIBRO aid b"
  shows "map alumno_id (alumnos (reducer u s x)) = map alumno_id (alumnos s)"
  using assms by (auto simp: marcar_frame desmarcar_frame)

lemma paso_marca_distinct:
  assumes "x = MARCAR_LIBRO aid b \<or> x = DESMARCAR_LIBRO aid b"
    and "entregados_sin_duplicados s"
  shows "entregados_sin_duplicados (reducer u s x)"
  using assms
  by (auto simp: entregados_sin_duplicados_def list_all_iff marcar_distinct desmarcar_distinct)

lemma secuencia_marca_inv:
  assumes "\<forall>p \<in> set pasos. snd p = MARCAR_LIBRO aid b \<or> snd p = DESMARCAR_LIBRO aid b"
  shows "map alumno_id (alumnos (ejecutar s pasos)) = map alumno_id (alumnos s)
       \<and> (entregados_sin_duplicados s \<longrightarrow> entregados_sin_duplicados (ejecutar s pasos))"
  using assms
proof (induction s pasos rule: ejecutar.induct)
  case (1 s)
  then show ?case by simp
next
  case (2 s u a rest)
  then have a: "a = MARCAR_LIBRO aid b \<or> a = DESMARCAR_LIBRO aid b" by simp
  from 2 have IH: "map alumno_id (alumnos (ejecutar (reducer u s a) rest))
        = map alumno_id (alumnos (reducer u s a))
       \<and> (entregados_sin_duplicados (reducer u s a) \<longrightarrow>
            entregados_sin_duplicados (ejecutar (reducer u s a) rest))"
    by simp
  with paso_marca_ids [OF a, of u s] paso_marca_distinct [OF a, of s u]
  show ?case by simp
qed

lemma findIndex_Some:
  "findIndex P xs = Some k \<Longrightarrow> k < length xs \<and> P (xs ! k) \<and> (\<forall>m<k. \<not> P (xs ! m))"
proof (induction xs arbitrary: k)
  case Nil
  then show ?case by simp
next
  case (Cons x xs)
  show ?case
  proof (cases "P x")
    case True
    with Cons.prems show ?thesis by simp
  next
    case False
    with Cons.prems obtain k' where k': "findIndex P xs = Some k'" "k = Suc k'"
      by auto
    from Cons.IH [OF k'(1)] False k'(2) show ?thesis
      by (auto simp: nth_Cons split: nat.splits)
  qed
qed

lemma findIndex_primera:
  "k < length xs \<Longrightarrow> P (xs ! k) \<Longrightarrow> \<forall>m<k. \<not> P (xs ! m) \<Longrightarrow> findIndex P xs = Some k"
proof (induction xs arbitrary: k)
  case Nil
  then show ?case by simp
next
  case (Cons x xs)
  show ?case
  proof (cases k)
    case 0
    with Cons.prems show ?thesis by simp
  next
    case (Suc k')
    with Cons.prems have "\<not> P x" by auto
    moreover from Cons.prems Suc have "findIndex P xs = Some k'"
      by (intro Cons.IH) auto
    ultimately show ?thesis using Suc by simp
  qed
qed

lemma distinct_isbn_swap:
  assumes "distinct (map isbn ls)" "a < length ls" "b < length ls"
  shows "distinct (map isbn (ls[a := ls ! b, b := ls ! a]))"
proof -
  have 1: "distinct ((map isbn ls)[a := map isbn ls ! b, b := map isbn ls ! a])"
    using assms by (simp only: distinct_swap length_map)
  have 2: "map isbn (ls[a := ls ! b, b := ls ! a])
      = (map isbn ls)[a := map isbn ls ! b, b := map isbn ls ! a]"
    using assms(2,3) by (simp add: map_update)
  from 1 2 show ?thesis by (simp only:)
qed

lemma agregar_libro_distinct:
  "distinct (map isbn (libros c)) \<Longrightarrow> distinct (map isbn (libros (agregar_libro cid i t c)))"
  by (auto simp: agregar_libro_def)

lemma quitar_libro_distinct:
  "distinct (map isbn (libros c)) \<Longrightarrow> distinct (map isbn (libros (quitar_libro cid i c)))"
  by (simp add: quitar_libro_def distinct_map_filter)

lemma reordenar_libros_distinct:
  assumes "distinct (map isbn (libros c))"
  shows "distinct (map isbn (libros (reordenar_libros cid i d c)))"
proof (cases "findIndex (\<lambda>l. isbn l = i) (libros c)")
  case None
  with assms show ?thesis by (simp add: reordenar_libros_def)
next
  case (Some k)
  then have k: "k < length (libros c)" using findIndex_Some by fastforce
  have up: "distinct (map isbn ((libros c)[k - 1 := libros c ! k, k := libros c ! (k - 1)]))"
    using distinct_isbn_swap [OF assms, of "k - 1" k] k by simp
  have down: "k + 1 < length (libros c) \<Longrightarrow>
      distinct (map isbn ((libros c)[k + 1 := libros c ! k, k := libros c ! (k + 1)]))"
    using distinct_isbn_swap [OF assms, of "k + 1" k] k by simp
  from Some assms up down show ?thesis
    by (auto simp: reordenar_libros_def Let_def)
qed

lemma paso_isbn_unicos:
  assumes "isbn_unicos s" and "\<forall>e. a = IMPORT_STATE e \<longrightarrow> isbn_unicos e"
  shows "isbn_unicos (reducer u s a)"
proof (cases a)
  case (ADD_LIBRO_A_CURSO cid i t)
  with assms(1) show ?thesis
    by (simp add: isbn_unicos_def list_all_iff agregar_libro_distinct)
next
  case (DEL_LIBRO_DE_CURSO cid i)
  with assms(1) show ?thesis
    by (simp add: isbn_unicos_def list_all_iff quitar_libro_distinct)
next
  case (REORDER_LIBROS cid i d)
  with assms(1) show ?thesis
    by (simp add: isbn_unicos_def list_all_iff reordenar_libros_distinct)
next
  case (IMPORT_STATE e)
  with assms(2) show ?thesis by simp
next
  case RESET_STATE
  then show ?thesis by (simp add: isbn_unicos_def estado_vacio_def)
qed (use assms(1) in \<open>simp_all add: isbn_unicos_def list_all_iff Let_def\<close>)

section \<open>C1: the hierarchy of the selection\<close>

text \<open>
  Claim C1, as amended. The hierarchy of the selection is not an invariant of the
  reducer, which never looks whether a selected id exists or belongs to the selected
  parent. What every state has: \<open>SELECT_CURSO\<close> sets the course and clears class and
  student, so its result is hierarchical; \<open>SELECT_CLASE\<close> sets the class, clears the
  student and keeps the course, and its result is hierarchical exactly when the payload is
  \<open>null\<close> or names an existing class of the selected course; \<open>SELECT_ALUMNO\<close> sets the
  student only; \<open>ADD_CURSO\<close> and \<open>ADD_ALUMNO\<close> select the entity they create, which is in
  the collection afterwards; each \<open>DEL_*\<close> action clears the selection of its own level
  when it pointed to the removed id and keeps it otherwise.
\<close>

theorem seleccion_por_accion:
  "seleccion (reducer u s (SELECT_CURSO p)) = \<lparr>cursoId = p, claseId = None, alumnoId = None\<rparr>
   \<and> seleccion_jerarquica (reducer u s (SELECT_CURSO p))
   \<and> seleccion (reducer u s (SELECT_CLASE q)) =
        \<lparr>cursoId = cursoId (seleccion s), claseId = q, alumnoId = None\<rparr>
   \<and> (seleccion_jerarquica (reducer u s (SELECT_CLASE q)) \<longleftrightarrow>
        (case q of None \<Rightarrow> True
         | Some k \<Rightarrow>
            (case cursoId (seleccion s) of None \<Rightarrow> False
             | Some c \<Rightarrow> list_ex (\<lambda>x. clase_id x = k \<and> clase_cursoId x = c) (clases s))))
   \<and> seleccion (reducer u s (SELECT_ALUMNO r)) =
        \<lparr>cursoId = cursoId (seleccion s), claseId = claseId (seleccion s), alumnoId = r\<rparr>
   \<and> cursoId (seleccion (reducer u s (ADD_CURSO n))) = Some u
   \<and> list_ex (\<lambda>c. curso_id c = u) (cursos (reducer u s (ADD_CURSO n)))
   \<and> alumnoId (seleccion (reducer u s (ADD_ALUMNO kid n))) = Some u
   \<and> list_ex (\<lambda>a. alumno_id a = u \<and> alumno_claseId a = kid) (alumnos (reducer u s (ADD_ALUMNO kid n)))
   \<and> cursoId (seleccion (reducer u s (DEL_CURSO cid))) =
        (if cursoId (seleccion s) = Some cid then None else cursoId (seleccion s))
   \<and> claseId (seleccion (reducer u s (DEL_CLASE kid))) =
        (if claseId (seleccion s) = Some kid then None else claseId (seleccion s))
   \<and> alumnoId (seleccion (reducer u s (DEL_ALUMNO aid))) =
        (if alumnoId (seleccion s) = Some aid then None else alumnoId (seleccion s))"
  by (simp add: seleccion_jerarquica_def Let_def split: option.split)

theorem seleccion_por_accion_witness:
  "seleccion_jerarquica (reducer ''u'' estado_prueba (SELECT_CURSO (Some ''c2'')))
   \<and> seleccion (reducer ''u'' estado_prueba (SELECT_CURSO (Some ''c2'')))
       = \<lparr>cursoId = Some ''c2'', claseId = None, alumnoId = None\<rparr>
   \<and> seleccion_jerarquica (reducer ''u'' estado_prueba (SELECT_CLASE (Some ''k1'')))
   \<and> \<not> seleccion_jerarquica (reducer ''u'' estado_prueba (SELECT_CLASE (Some ''k2'')))"
proof -
  note T1 = seleccion_por_accion [of "''u''" estado_prueba "Some ''c2''" "Some ''k1''"
      None "''n''" "''k1''" "''c1''" "''a1''"]
  note T2 = seleccion_por_accion [of "''u''" estado_prueba "Some ''c2''" "Some ''k2''"
      None "''n''" "''k1''" "''c1''" "''a1''"]
  have e1: "(case Some ''k1'' of None \<Rightarrow> True
         | Some k \<Rightarrow>
            (case cursoId (seleccion estado_prueba) of None \<Rightarrow> False
             | Some c \<Rightarrow> list_ex (\<lambda>x. clase_id x = k \<and> clase_cursoId x = c)
                 (clases estado_prueba)))"
    by (simp add: estado_prueba_def)
  have e2: "\<not> (case Some ''k2'' of None \<Rightarrow> True
         | Some k \<Rightarrow>
            (case cursoId (seleccion estado_prueba) of None \<Rightarrow> False
             | Some c \<Rightarrow> list_ex (\<lambda>x. clase_id x = k \<and> clase_cursoId x = c)
                 (clases estado_prueba)))"
    by (simp add: estado_prueba_def)
  from T1 have c1: "seleccion_jerarquica (reducer ''u'' estado_prueba (SELECT_CURSO (Some ''c2'')))"
    by blast
  from T1 have c2: "seleccion (reducer ''u'' estado_prueba (SELECT_CURSO (Some ''c2'')))
       = \<lparr>cursoId = Some ''c2'', claseId = None, alumnoId = None\<rparr>"
    by blast
  from T1 e1 have c3: "seleccion_jerarquica (reducer ''u'' estado_prueba (SELECT_CLASE (Some ''k1'')))"
    by blast
  from T2 e2 have c4: "\<not> seleccion_jerarquica (reducer ''u'' estado_prueba (SELECT_CLASE (Some ''k2'')))"
    by blast
  from c1 c2 c3 c4 show ?thesis by blast
qed

text \<open>
  The claim as stated fails on a run from the empty snapshot: two courses and a class of
  the first are created, the second course is selected, then the class is selected as the
  control section does. The selection names the second course and a class of the first.
\<close>

theorem seleccion_jerarquica_counterexample:
  "\<not> seleccion_jerarquica
       (ejecutar estado_vacio
          [(''c1'', ADD_CURSO ''Curso A''),
           (''k1'', ADD_CLASE ''c1'' ''1A''),
           (''c2'', ADD_CURSO ''Curso B''),
           (''u4'', SELECT_CURSO (Some ''c2'')),
           (''u5'', SELECT_CLASE (Some ''k1''))])
   \<and> seleccion (ejecutar estado_vacio
          [(''c1'', ADD_CURSO ''Curso A''),
           (''k1'', ADD_CLASE ''c1'' ''1A''),
           (''c2'', ADD_CURSO ''Curso B''),
           (''u4'', SELECT_CURSO (Some ''c2'')),
           (''u5'', SELECT_CLASE (Some ''k1''))])
       = \<lparr>cursoId = Some ''c2'', claseId = Some ''k1'', alumnoId = None\<rparr>
   \<and> map clase_cursoId (clases (ejecutar estado_vacio
          [(''c1'', ADD_CURSO ''Curso A''),
           (''k1'', ADD_CLASE ''c1'' ''1A''),
           (''c2'', ADD_CURSO ''Curso B''),
           (''u4'', SELECT_CURSO (Some ''c2'')),
           (''u5'', SELECT_CLASE (Some ''k1''))])) = [''c1'']"
  by (simp add: estado_vacio_def seleccion_jerarquica_def trim_def es_blanco_def)

section \<open>C2: the locator sanitizer on the malformed locator\<close>

text \<open>
  Claim C2, evaluated on the code. On the malformed locator of the embedded test (the base
  prefix twice, then \<open>/+esm\<close>) \<open>sanitizeCdnUrl\<close> collapses the doubled prefix but keeps
  the trailing \<open>/+esm\<close>: the second pattern asks for slashes directly before \<open>esm\<close>, and
  here a \<open>+\<close> stands between them. The result is therefore not \<open>ZXING_ESM_URL\<close>, which
  the test expects. The clean locator \<open>ZXING_ESM_URL\<close> is returned unchanged, while a
  locator that ends in \<open>/esm\<close> loses that ending. The example of the specification, on
  another host, is returned as it is: the first pattern names the jsdelivr prefix only.
\<close>

theorem sanitizeCdnUrl_no_quita_esm:
  "sanitizeCdnUrl
     ''https://cdn.jsdelivr.net/npm/https://cdn.jsdelivr.net/npm/@zxing/browser@0.1.5/esm/index.js/+esm''
   = ''https://cdn.jsdelivr.net/npm/@zxing/browser@0.1.5/esm/index.js/+esm''
   \<and> sanitizeCdnUrl
     ''https://cdn.jsdelivr.net/npm/https://cdn.jsdelivr.net/npm/@zxing/browser@0.1.5/esm/index.js/+esm''
   \<noteq> ZXING_ESM_URL
   \<and> sanitizeCdnUrl ZXING_ESM_URL = ZXING_ESM_URL
   \<and> sanitizeCdnUrl ''https://cdn.jsdelivr.net/npm/@zxing/browser@0.1.5/esm''
       = ''https://cdn.jsdelivr.net/npm/@zxing/browser@0.1.5''
   \<and> sanitizeCdnUrl ''https://cdn.example/npm/https://cdn.example/npm/lib@1/index.js/+esm''
       = ''https://cdn.example/npm/https://cdn.example/npm/lib@1/index.js/+esm''"
  by code_simp

section \<open>C3: the duplicate filter of the scanner\<close>

text \<open>
  Claim C3, as amended. A decoded code is accepted exactly when it is not empty and it
  either differs from the last accepted code or more than 2500 ms have passed since that
  acceptance. So, after an accepted decode at time \<open>t\<close>: the same code at most 2500 ms
  later is dropped (one dispatch), more than 2500 ms later it is accepted again (two
  dispatches), and the same code within 500 ms and once more 3000 ms after the first
  acceptance gives two dispatches. A non-empty code that differs from the last accepted
  one is accepted at any time.
\<close>

theorem acepta_mas_de_2500:
  "(acepta u c now \<longleftrightarrow> c \<noteq> [] \<and> (c \<noteq> code u \<or> now - ts u > 2500))
   \<and> (acepta u c t \<and> d \<le> 2500 \<longrightarrow> escanear u [(c, t), (c, t + d)] = [c])
   \<and> (acepta u c t \<and> 2500 < d \<longrightarrow> escanear u [(c, t), (c, t + d)] = [c, c])
   \<and> (acepta u c t \<and> d \<le> 500 \<longrightarrow> escanear u [(c, t), (c, t + d), (c, t + 3000)] = [c, c])
   \<and> (c \<noteq> [] \<and> c \<noteq> code u \<longrightarrow> acepta u c now)"
  by (simp add: acepta_def decode_callback_def)

theorem acepta_mas_de_2500_witness:
  "acepta ultimoLeido_inicial ''9788499890944'' 10000
   \<and> (500::int) \<le> 500
   \<and> escanear ultimoLeido_inicial
        [(''9788499890944'', 10000), (''9788499890944'', 10000 + 500),
         (''9788499890944'', 10000 + 3000)]
       = [''9788499890944'', ''9788499890944'']
   \<and> escanear ultimoLeido_inicial
        [(''9788499890944'', 10000), (''9788499890944'', 10000 + 2500)]
       = [''9788499890944'']
   \<and> escanear ultimoLeido_inicial
        [(''9788499890944'', 10000), (''9788499890944'', 10000 + 2501)]
       = [''9788499890944'', ''9788499890944'']"
proof -
  have h: "acepta ultimoLeido_inicial ''9788499890944'' 10000"
    by (simp add: acepta_def ultimoLeido_inicial_def)
  note T500 = acepta_mas_de_2500 [of ultimoLeido_inicial "''9788499890944''" 10000 10000 500]
  note T2500 = acepta_mas_de_2500 [of ultimoLeido_inicial "''9788499890944''" 10000 10000 2500]
  note T2501 = acepta_mas_de_2500 [of ultimoLeido_inicial "''9788499890944''" 10000 10000 2501]
  have c1: "escanear ultimoLeido_inicial
        [(''9788499890944'', 10000), (''9788499890944'', 10000 + 500),
         (''9788499890944'', 10000 + 3000)]
       = [''9788499890944'', ''9788499890944'']"
    using T500 h by fastforce
  have c2: "escanear ultimoLeido_inicial
        [(''9788499890944'', 10000), (''9788499890944'', 10000 + 2500)]
       = [''9788499890944'']"
    using T2500 h by fastforce
  have c3: "escanear ultimoLeido_inicial
        [(''9788499890944'', 10000), (''9788499890944'', 10000 + 2501)]
       = [''9788499890944'', ''9788499890944'']"
    using T2501 h by fastforce
  from h c1 c2 c3 show ?thesis by simp
qed

text \<open>
  The claim as stated counts exactly 2500 ms as enough. The code compares with \<open>>\<close>:
  the same code 2500 ms after its acceptance is not accepted, and the burst gives one
  dispatch.
\<close>

theorem acepta_exactamente_2500_counterexample:
  "\<not> (acepta \<lparr>code = ''9788499890944'', ts = 10000\<rparr> ''9788499890944'' 12500
        \<longleftrightarrow> (''9788499890944'' \<noteq> code \<lparr>code = ''9788499890944'', ts = 10000\<rparr>
             \<or> 12500 - ts \<lparr>code = ''9788499890944'', ts = 10000\<rparr> \<ge> 2500))
   \<and> escanear ultimoLeido_inicial [(''9788499890944'', 10000), (''9788499890944'', 12500)]
       = [''9788499890944'']"
  by (simp add: acepta_def decode_callback_def ultimoLeido_inicial_def)

section \<open>C4: sequences of marking and unmarking\<close>

text \<open>
  Claim C4, as amended. After any non-empty sequence of \<open>MARCAR_LIBRO\<close> and
  \<open>DESMARCAR_LIBRO\<close> actions on one (student, isbn) pair, from any state, every student
  with that id has the isbn in the delivered list exactly when the last action was
  \<open>MARCAR_LIBRO\<close>; the students are the same as before. \<open>MARCAR_LIBRO\<close> twice is
  \<open>MARCAR_LIBRO\<close> once, and it returns the state unchanged when the isbn is already in the
  list. The actions add no duplicate: when no delivered list holds an isbn twice before
  the sequence, none does after it.
\<close>

theorem marcar_desmarcar_ultima_accion:
  assumes "pasos \<noteq> []"
    and "\<forall>p \<in> set pasos. snd p = MARCAR_LIBRO aid b \<or> snd p = DESMARCAR_LIBRO aid b"
  shows "(\<forall>a \<in> set (alumnos (ejecutar s pasos)). alumno_id a = aid \<longrightarrow>
            (b \<in> set (librosEntregados a) \<longleftrightarrow> snd (last pasos) = MARCAR_LIBRO aid b))
       \<and> map alumno_id (alumnos (ejecutar s pasos)) = map alumno_id (alumnos s)
       \<and> reducer u' (reducer u s (MARCAR_LIBRO aid b)) (MARCAR_LIBRO aid b)
           = reducer u s (MARCAR_LIBRO aid b)
       \<and> ((\<forall>a \<in> set (alumnos s). alumno_id a = aid \<longrightarrow> b \<in> set (librosEntregados a)) \<longrightarrow>
            reducer u s (MARCAR_LIBRO aid b) = s)
       \<and> (entregados_sin_duplicados s \<longrightarrow> entregados_sin_duplicados (ejecutar s pasos))"
proof -
  from assms(1) obtain ini ult where pasos: "pasos = ini @ [ult]"
    by (cases pasos rule: rev_cases) auto
  obtain v x where ult: "ult = (v, x)" by (cases ult)
  from assms(2) pasos ult have x: "x = MARCAR_LIBRO aid b \<or> x = DESMARCAR_LIBRO aid b"
    by simp
  have fin: "ejecutar s pasos = reducer v (ejecutar s ini) x"
    by (simp add: pasos ult ejecutar_append)
  have 1: "\<forall>a \<in> set (alumnos (ejecutar s pasos)). alumno_id a = aid \<longrightarrow>
            (b \<in> set (librosEntregados a) \<longleftrightarrow> snd (last pasos) = MARCAR_LIBRO aid b)"
  proof (intro ballI impI)
    fix a assume "a \<in> set (alumnos (ejecutar s pasos))" "alumno_id a = aid"
    then have "b \<in> set (librosEntregados a) \<longleftrightarrow> x = MARCAR_LIBRO aid b"
      using paso_marca_miembro [OF x, of a v "ejecutar s ini"] by (simp add: fin)
    then show "b \<in> set (librosEntregados a) \<longleftrightarrow> snd (last pasos) = MARCAR_LIBRO aid b"
      by (simp add: pasos ult)
  qed
  have 3: "reducer u' (reducer u s (MARCAR_LIBRO aid b)) (MARCAR_LIBRO aid b)
           = reducer u s (MARCAR_LIBRO aid b)"
    by (simp add: marcar_idem)
  have 4: "(\<forall>a \<in> set (alumnos s). alumno_id a = aid \<longrightarrow> b \<in> set (librosEntregados a)) \<longrightarrow>
            reducer u s (MARCAR_LIBRO aid b) = s"
  proof
    assume h: "\<forall>a \<in> set (alumnos s). alumno_id a = aid \<longrightarrow> b \<in> set (librosEntregados a)"
    have "map (marcar aid b) (alumnos s) = alumnos s"
      by (rule map_sin_objetivo) (use h in \<open>simp add: marcar_noop\<close>)
    then show "reducer u s (MARCAR_LIBRO aid b) = s" by simp
  qed
  from 1 3 4 secuencia_marca_inv [OF assms(2), of s] show ?thesis by blast
qed

theorem marcar_desmarcar_ultima_accion_witness:
  "[(''u1'', MARCAR_LIBRO ''a1'' ''9788499890944''),
    (''u2'', DESMARCAR_LIBRO ''a1'' ''9788499890944''),
    (''u3'', MARCAR_LIBRO ''a1'' ''9788499890944'')] \<noteq> []
   \<and> alumno_id (alumnos (ejecutar estado_prueba
        [(''u1'', MARCAR_LIBRO ''a1'' ''9788499890944''),
         (''u2'', DESMARCAR_LIBRO ''a1'' ''9788499890944''),
         (''u3'', MARCAR_LIBRO ''a1'' ''9788499890944'')]) ! 0) = ''a1''
   \<and> ''9788499890944'' \<in> set (librosEntregados (alumnos (ejecutar estado_prueba
        [(''u1'', MARCAR_LIBRO ''a1'' ''9788499890944''),
         (''u2'', DESMARCAR_LIBRO ''a1'' ''9788499890944''),
         (''u3'', MARCAR_LIBRO ''a1'' ''9788499890944'')]) ! 0))
   \<and> ''9788499890944'' \<notin> set (librosEntregados (alumnos (ejecutar estado_prueba
        [(''u1'', MARCAR_LIBRO ''a1'' ''9788499890944''),
         (''u2'', DESMARCAR_LIBRO ''a1'' ''9788499890944'')]) ! 0))
   \<and> entregados_sin_duplicados estado_prueba
   \<and> entregados_sin_duplicados (ejecutar estado_prueba
        [(''u1'', MARCAR_LIBRO ''a1'' ''9788499890944''),
         (''u2'', DESMARCAR_LIBRO ''a1'' ''9788499890944''),
         (''u3'', MARCAR_LIBRO ''a1'' ''9788499890944'')])"
proof -
  let ?b = "''9788499890944''"
  let ?p1 = "[(''u1'', MARCAR_LIBRO ''a1'' ?b), (''u2'', DESMARCAR_LIBRO ''a1'' ?b),
              (''u3'', MARCAR_LIBRO ''a1'' ?b)]"
  let ?p2 = "[(''u1'', MARCAR_LIBRO ''a1'' ?b), (''u2'', DESMARCAR_LIBRO ''a1'' ?b)]"
  have n1: "?p1 \<noteq> []" and n2: "?p2 \<noteq> []" by simp_all
  have f1: "\<forall>p \<in> set ?p1. snd p = MARCAR_LIBRO ''a1'' ?b \<or> snd p = DESMARCAR_LIBRO ''a1'' ?b"
    by simp
  have f2: "\<forall>p \<in> set ?p2. snd p = MARCAR_LIBRO ''a1'' ?b \<or> snd p = DESMARCAR_LIBRO ''a1'' ?b"
    by simp
  note T1 = marcar_desmarcar_ultima_accion [OF n1 f1, of estado_prueba "''u''" "''u''"]
  note T2 = marcar_desmarcar_ultima_accion [OF n2 f2, of estado_prueba "''u''" "''u''"]
  have m1: "alumnos (ejecutar estado_prueba ?p1) ! 0 \<in> set (alumnos (ejecutar estado_prueba ?p1))"
    by (simp add: estado_prueba_def)
  have m2: "alumnos (ejecutar estado_prueba ?p2) ! 0 \<in> set (alumnos (ejecutar estado_prueba ?p2))"
    by (simp add: estado_prueba_def)
  have i1: "alumno_id (alumnos (ejecutar estado_prueba ?p1) ! 0) = ''a1''"
    by (simp add: estado_prueba_def marcar_frame desmarcar_frame)
  have i2: "alumno_id (alumnos (ejecutar estado_prueba ?p2) ! 0) = ''a1''"
    by (simp add: estado_prueba_def marcar_frame desmarcar_frame)
  have l1: "snd (last ?p1) = MARCAR_LIBRO ''a1'' ?b" by simp
  have l2: "snd (last ?p2) \<noteq> MARCAR_LIBRO ''a1'' ?b" by simp
  from T1 m1 i1 l1
  have c1: "?b \<in> set (librosEntregados (alumnos (ejecutar estado_prueba ?p1) ! 0))"
    by blast
  from T2 m2 i2 l2
  have c2: "?b \<notin> set (librosEntregados (alumnos (ejecutar estado_prueba ?p2) ! 0))"
    by blast
  have d0: "entregados_sin_duplicados estado_prueba"
    by (simp add: estado_prueba_def entregados_sin_duplicados_def)
  with T1 have c3: "entregados_sin_duplicados (ejecutar estado_prueba ?p1)"
    by blast
  from n1 i1 c1 c2 d0 c3 show ?thesis by blast
qed

text \<open>
  The claim as stated promises lists without duplicates from every starting state. A
  list that holds an isbn twice before the actions still holds it twice after them.
\<close>

theorem entregados_duplicados_counterexample:
  "reducer ''u'' estado_vacio (IMPORT_STATE estado_entrega_repetida) = estado_entrega_repetida
   \<and> \<not> distinct (librosEntregados
        (alumnos (ejecutar estado_entrega_repetida [(''u'', MARCAR_LIBRO ''a1'' ''9788499890944'')]) ! 0))
   \<and> \<not> entregados_sin_duplicados
        (ejecutar estado_entrega_repetida
           [(''u'', MARCAR_LIBRO ''a1'' ''9780000000001''),
            (''u'', DESMARCAR_LIBRO ''a1'' ''9780000000001'')])"
  by (simp add: estado_entrega_repetida_def entregados_sin_duplicados_def marcar_def desmarcar_def)

section \<open>C5: one book reference per ISBN in a course\<close>

text \<open>
  Claim C5, as amended. From a state where no course lists an ISBN twice, every run of
  reducer actions whose \<open>IMPORT_STATE\<close> payloads have that property too ends in such a
  state. \<open>ADD_LIBRO_A_CURSO\<close> with an ISBN that a course already lists leaves that course
  unchanged, in every state.
\<close>

theorem isbn_unicos_preservado:
  assumes "isbn_unicos s"
    and "\<forall>p \<in> set pasos. \<forall>e. snd p = IMPORT_STATE e \<longrightarrow> isbn_unicos e"
  shows "isbn_unicos (ejecutar s pasos)
       \<and> (\<forall>j < length (cursos s).
            (\<exists>l \<in> set (libros (cursos s ! j)). isbn l = i) \<longrightarrow>
              cursos (reducer u s (ADD_LIBRO_A_CURSO cid i t)) ! j = cursos s ! j)"
proof
  from assms show "isbn_unicos (ejecutar s pasos)"
  proof (induction s pasos rule: ejecutar.induct)
    case (1 s)
    then show ?case by simp
  next
    case (2 s v a rest)
    then have "isbn_unicos (reducer v s a)"
      by (intro paso_isbn_unicos) auto
    with 2 show ?case by simp
  qed
next
  show "\<forall>j < length (cursos s).
            (\<exists>l \<in> set (libros (cursos s ! j)). isbn l = i) \<longrightarrow>
              cursos (reducer u s (ADD_LIBRO_A_CURSO cid i t)) ! j = cursos s ! j"
    by (simp add: agregar_libro_def)
qed

theorem isbn_unicos_preservado_witness:
  "isbn_unicos estado_prueba
   \<and> isbn_unicos (ejecutar estado_prueba
        [(''u1'', ADD_LIBRO_A_CURSO ''c1'' ''9788499890944'' (Some ''Otro titulo'')),
         (''u2'', REORDER_LIBROS ''c1'' ''9788499890944'' ''down''),
         (''u3'', ADD_LIBRO_A_CURSO ''c2'' ''9788499890944'' None),
         (''u4'', IMPORT_STATE estado_prueba)])
   \<and> (0::nat) < length (cursos estado_prueba)
   \<and> (\<exists>l \<in> set (libros (cursos estado_prueba ! 0)). isbn l = ''9788499890944'')
   \<and> cursos (reducer ''u'' estado_prueba
        (ADD_LIBRO_A_CURSO ''c1'' ''9788499890944'' (Some ''Otro titulo''))) ! 0
       = cursos estado_prueba ! 0"
proof -
  let ?pasos = "[(''u1'', ADD_LIBRO_A_CURSO ''c1'' ''9788499890944'' (Some ''Otro titulo'')),
         (''u2'', REORDER_LIBROS ''c1'' ''9788499890944'' ''down''),
         (''u3'', ADD_LIBRO_A_CURSO ''c2'' ''9788499890944'' None),
         (''u4'', IMPORT_STATE estado_prueba)]"
  have h1: "isbn_unicos estado_prueba"
    by (simp add: isbn_unicos_def estado_prueba_def)
  then have h2: "\<forall>p \<in> set ?pasos. \<forall>e. snd p = IMPORT_STATE e \<longrightarrow> isbn_unicos e"
    by simp
  note T = isbn_unicos_preservado [OF h1 h2, of "''9788499890944''" "''u''" "''c1''"
      "Some ''Otro titulo''"]
  have h3: "(0::nat) < length (cursos estado_prueba)"
    by (simp add: estado_prueba_def)
  have h4: "\<exists>l \<in> set (libros (cursos estado_prueba ! 0)). isbn l = ''9788499890944''"
    by (simp add: estado_prueba_def)
  from T have c1: "isbn_unicos (ejecutar estado_prueba ?pasos)" by blast
  from T h3 h4 have c2: "cursos (reducer ''u'' estado_prueba
        (ADD_LIBRO_A_CURSO ''c1'' ''9788499890944'' (Some ''Otro titulo''))) ! 0
       = cursos estado_prueba ! 0"
    by blast
  from h1 c1 h3 h4 c2 show ?thesis by blast
qed

text \<open>
  The claim as stated covers every reducer action. \<open>IMPORT_STATE\<close> returns its payload
  unchecked, so from the empty snapshot one action reaches a course that lists an ISBN
  twice.
\<close>

theorem isbn_unicos_counterexample:
  "isbn_unicos estado_vacio
   \<and> \<not> isbn_unicos (ejecutar estado_vacio [(''u'', IMPORT_STATE estado_isbn_repetido)])"
  by (simp add: isbn_unicos_def estado_vacio_def estado_isbn_repetido_def)

section \<open>C6: importing a payload without one of the collections\<close>

text \<open>
  Claim C6. When the parsed payload has no \<open>cursos\<close>, no \<open>clases\<close> or no \<open>alumnos\<close>
  property, the handler of \<open>importarJSON\<close> dispatches nothing (the reducer is not called),
  sets the error notice \<open>Error al importar: Formato no valido.\<close> and the snapshot of the
  application stays the one before the import.
\<close>

theorem importarJSON_sin_coleccion:
  assumes "leer_prop parsed ''cursos'' = None \<or> leer_prop parsed ''clases'' = None
           \<or> leer_prop parsed ''alumnos'' = None"
  shows "fst (importarJSON como_estado (Inr parsed)) = []
       \<and> snd (importarJSON como_estado (Inr parsed)) =
           \<lparr>text_msg = ''Error al importar: Formato no v'' @ [CHR 0xE1] @ ''lido.'', tipo = Error\<rparr>
       \<and> app_importar como_estado u s (Inr parsed) =
           (s, \<lparr>text_msg = ''Error al importar: Formato no v'' @ [CHR 0xE1] @ ''lido.'',
                tipo = Error\<rparr>)"
  using assms by (auto simp: importarJSON_def app_importar_def truthy_prop_def)

theorem importarJSON_sin_coleccion_witness:
  "leer_prop (JObj [(''cursos'', JArr []), (''alumnos'', JArr [])]) ''clases'' = None
   \<and> fst (importarJSON (\<lambda>v. estado_vacio)
            (Inr (JObj [(''cursos'', JArr []), (''alumnos'', JArr [])]))) = []
   \<and> tipo (snd (importarJSON (\<lambda>v. estado_vacio)
            (Inr (JObj [(''cursos'', JArr []), (''alumnos'', JArr [])])))) = Error
   \<and> fst (app_importar (\<lambda>v. estado_vacio) ''u'' estado_prueba
            (Inr (JObj [(''cursos'', JArr []), (''alumnos'', JArr [])]))) = estado_prueba"
proof -
  have h: "leer_prop (JObj [(''cursos'', JArr []), (''alumnos'', JArr [])]) ''clases'' = None"
    by simp
  then have h': "leer_prop (JObj [(''cursos'', JArr []), (''alumnos'', JArr [])]) ''cursos'' = None
      \<or> leer_prop (JObj [(''cursos'', JArr []), (''alumnos'', JArr [])]) ''clases'' = None
      \<or> leer_prop (JObj [(''cursos'', JArr []), (''alumnos'', JArr [])]) ''alumnos'' = None"
    by blast
  note T = importarJSON_sin_coleccion [OF h', of "\<lambda>v. estado_vacio" "''u''" estado_prueba]
  from T have c1: "fst (importarJSON (\<lambda>v. estado_vacio)
            (Inr (JObj [(''cursos'', JArr []), (''alumnos'', JArr [])]))) = []"
    by blast
  from T have c2: "tipo (snd (importarJSON (\<lambda>v. estado_vacio)
            (Inr (JObj [(''cursos'', JArr []), (''alumnos'', JArr [])])))) = Error"
    by simp
  from T have c3: "fst (app_importar (\<lambda>v. estado_vacio) ''u'' estado_prueba
            (Inr (JObj [(''cursos'', JArr []), (''alumnos'', JArr [])]))) = estado_prueba"
    by simp
  from h c1 c2 c3 show ?thesis by blast
qed

section \<open>C7: the scan flow of the control section\<close>

lemma find_isbn_Some:
  assumes "\<exists>l \<in> set ls. isbn l = b"
  shows "\<exists>l \<in> set ls. isbn l = b \<and> List.find (\<lambda>l. isbn l = b) ls = Some l"
  using assms by (induction ls) auto

lemma find_isbn_None:
  assumes "\<not> (\<exists>l \<in> set ls. isbn l = b)"
  shows "List.find (\<lambda>l. isbn l = b) ls = None"
  using assms by (induction ls) auto

text \<open>
  Claim C7. \<open>handleScan\<close> on (barcode, selected student, course of the selected class):
  when the student or the course is absent it dispatches nothing and sets no notice; when
  some book of the course has the barcode as its ISBN it dispatches exactly one
  \<open>MARCAR_LIBRO\<close> for that student and barcode and sets a success notice with the title
  of a matching book; when no book matches it dispatches nothing and sets the error
  notice.
\<close>

theorem handleScan_casos:
  "(alSel = None \<or> cursoCl = None \<longrightarrow> handleScan alSel cursoCl barcode = ([], None))
   \<and> (alSel = Some a \<and> cursoCl = Some c \<and> (\<exists>l \<in> set (libros c). isbn l = barcode) \<longrightarrow>
        (\<exists>l \<in> set (libros c). isbn l = barcode \<and>
           handleScan alSel cursoCl barcode =
             ([MARCAR_LIBRO (alumno_id a) barcode],
              Some \<lparr>text_msg = [CHR 0x22] @ title l @ [CHR 0x22] @ '' marcado.'',
                    tipo = Success\<rparr>)))
   \<and> (alSel = Some a \<and> cursoCl = Some c \<and> \<not> (\<exists>l \<in> set (libros c). isbn l = barcode) \<longrightarrow>
        handleScan alSel cursoCl barcode =
          ([], Some \<lparr>text_msg = ''Libro no encontrado en la lista del curso.'', tipo = Error\<rparr>))"
proof (intro conjI impI)
  assume "alSel = None \<or> cursoCl = None"
  then show "handleScan alSel cursoCl barcode = ([], None)"
    by (auto simp: handleScan_def split: option.splits)
next
  assume h: "alSel = Some a \<and> cursoCl = Some c \<and> (\<exists>l \<in> set (libros c). isbn l = barcode)"
  then obtain l where l: "l \<in> set (libros c)" "isbn l = barcode"
      "List.find (\<lambda>l. isbn l = barcode) (libros c) = Some l"
    using find_isbn_Some [of "libros c" barcode] by blast
  with h show "\<exists>l \<in> set (libros c). isbn l = barcode \<and>
           handleScan alSel cursoCl barcode =
             ([MARCAR_LIBRO (alumno_id a) barcode],
              Some \<lparr>text_msg = [CHR 0x22] @ title l @ [CHR 0x22] @ '' marcado.'',
                    tipo = Success\<rparr>)"
    by (intro bexI [of _ l]) (simp_all add: handleScan_def)
next
  assume h: "alSel = Some a \<and> cursoCl = Some c \<and> \<not> (\<exists>l \<in> set (libros c). isbn l = barcode)"
  then have "List.find (\<lambda>l. isbn l = barcode) (libros c) = None"
    using find_isbn_None [of "libros c" barcode] by blast
  with h show "handleScan alSel cursoCl barcode =
          ([], Some \<lparr>text_msg = ''Libro no encontrado en la lista del curso.'', tipo = Error\<rparr>)"
    by (simp add: handleScan_def)
qed

theorem handleScan_casos_witness:
  "alumnoSel estado_prueba = Some (alumnos estado_prueba ! 0)
   \<and> cursoDeClase estado_prueba = Some (cursos estado_prueba ! 0)
   \<and> alumno_id (alumnos estado_prueba ! 0) = ''a1''
   \<and> (\<exists>l \<in> set (libros (cursos estado_prueba ! 0)). isbn l = ''9780000000001'')
   \<and> fst (handleScan (alumnoSel estado_prueba) (cursoDeClase estado_prueba) ''9780000000001'')
       = [MARCAR_LIBRO ''a1'' ''9780000000001'']
   \<and> \<not> (\<exists>l \<in> set (libros (cursos estado_prueba ! 0)). isbn l = ''9780000000002'')
   \<and> handleScan (alumnoSel estado_prueba) (cursoDeClase estado_prueba) ''9780000000002''
       = ([], Some \<lparr>text_msg = ''Libro no encontrado en la lista del curso.'', tipo = Error\<rparr>)
   \<and> handleScan None (cursoDeClase estado_prueba) ''9780000000001'' = ([], None)"
proof -
  have a: "alumnoSel estado_prueba = Some (alumnos estado_prueba ! 0)"
    by (simp add: estado_prueba_def alumnoSel_def alumnosEnClase_def)
  have c: "cursoDeClase estado_prueba = Some (cursos estado_prueba ! 0)"
    by (simp add: estado_prueba_def cursoDeClase_def claseSel_def)
  have i: "alumno_id (alumnos estado_prueba ! 0) = ''a1''"
    by (simp add: estado_prueba_def)
  have hit: "\<exists>l \<in> set (libros (cursos estado_prueba ! 0)). isbn l = ''9780000000001''"
    by (simp add: estado_prueba_def)
  have miss: "\<not> (\<exists>l \<in> set (libros (cursos estado_prueba ! 0)). isbn l = ''9780000000002'')"
    by (simp add: estado_prueba_def)
  note T1 = handleScan_casos [of "alumnoSel estado_prueba" "cursoDeClase estado_prueba"
      "''9780000000001''" "alumnos estado_prueba ! 0" "cursos estado_prueba ! 0"]
  note T2 = handleScan_casos [of "alumnoSel estado_prueba" "cursoDeClase estado_prueba"
      "''9780000000002''" "alumnos estado_prueba ! 0" "cursos estado_prueba ! 0"]
  note T3 = handleScan_casos [of None "cursoDeClase estado_prueba"
      "''9780000000001''" "alumnos estado_prueba ! 0" "cursos estado_prueba ! 0"]
  from T1 a c hit obtain l :: libro where
    "handleScan (alumnoSel estado_prueba) (cursoDeClase estado_prueba) ''9780000000001'' =
       ([MARCAR_LIBRO (alumno_id (alumnos estado_prueba ! 0)) ''9780000000001''],
        Some \<lparr>text_msg = [CHR 0x22] @ title l @ [CHR 0x22] @ '' marcado.'', tipo = Success\<rparr>)"
    by blast
  with i have c1:
    "fst (handleScan (alumnoSel estado_prueba) (cursoDeClase estado_prueba) ''9780000000001'')
       = [MARCAR_LIBRO ''a1'' ''9780000000001'']"
    by simp
  from T2 a c miss have c2:
    "handleScan (alumnoSel estado_prueba) (cursoDeClase estado_prueba) ''9780000000002''
       = ([], Some \<lparr>text_msg = ''Libro no encontrado en la lista del curso.'', tipo = Error\<rparr>)"
    by blast
  from T3 have c3: "handleScan None (cursoDeClase estado_prueba) ''9780000000001'' = ([], None)"
    by blast
  from a c i hit c1 miss c2 c3 show ?thesis by blast
qed

section \<open>C8: reordering at the ends of the list\<close>

text \<open>
  Claim C8, as amended. \<open>REORDER_LIBROS\<close> finds the book by ISBN and acts on the first
  book reference that carries it, at position \<open>k\<close> (the only one when the ISBNs of the
  course are distinct). With direction \<open>up\<close> and \<open>k = 0\<close>, or direction \<open>down\<close> and \<open>k\<close>
  the last position, the list is returned as it was. Otherwise \<open>up\<close> exchanges the
  elements at \<open>k - 1\<close> and \<open>k\<close>, and \<open>down\<close> those at \<open>k\<close> and \<open>k + 1\<close>; every other
  position keeps its element, and the length is kept. Any other direction changes
  nothing. No case fails.
\<close>

theorem REORDER_LIBROS_primera_aparicion:
  assumes "j < length (cursos s)" and "curso_id (cursos s ! j) = cid"
    and "k < length (libros (cursos s ! j))"
    and "isbn (libros (cursos s ! j) ! k) = i"
    and "\<forall>m<k. isbn (libros (cursos s ! j) ! m) \<noteq> i"
  shows "(d = ''up'' \<and> k = 0 \<longrightarrow>
            libros (cursos (reducer u s (REORDER_LIBROS cid i d)) ! j) = libros (cursos s ! j))
       \<and> (d = ''down'' \<and> k = length (libros (cursos s ! j)) - 1 \<longrightarrow>
            libros (cursos (reducer u s (REORDER_LIBROS cid i d)) ! j) = libros (cursos s ! j))
       \<and> (d = ''up'' \<and> 0 < k \<longrightarrow>
            libros (cursos (reducer u s (REORDER_LIBROS cid i d)) ! j)
              = (libros (cursos s ! j))[k - 1 := libros (cursos s ! j) ! k,
                                        k := libros (cursos s ! j) ! (k - 1)])
       \<and> (d = ''down'' \<and> k < length (libros (cursos s ! j)) - 1 \<longrightarrow>
            libros (cursos (reducer u s (REORDER_LIBROS cid i d)) ! j)
              = (libros (cursos s ! j))[k + 1 := libros (cursos s ! j) ! k,
                                        k := libros (cursos s ! j) ! (k + 1)])
       \<and> (d \<noteq> ''up'' \<and> d \<noteq> ''down'' \<longrightarrow>
            libros (cursos (reducer u s (REORDER_LIBROS cid i d)) ! j) = libros (cursos s ! j))
       \<and> length (libros (cursos (reducer u s (REORDER_LIBROS cid i d)) ! j))
            = length (libros (cursos s ! j))
       \<and> (\<forall>m < length (libros (cursos s ! j)).
            m \<noteq> k \<and> (d = ''up'' \<longrightarrow> m + 1 \<noteq> k) \<and> (d = ''down'' \<longrightarrow> m \<noteq> k + 1) \<longrightarrow>
            libros (cursos (reducer u s (REORDER_LIBROS cid i d)) ! j) ! m
              = libros (cursos s ! j) ! m)"
proof -
  let ?ls = "libros (cursos s ! j)"
  have f: "findIndex (\<lambda>l. isbn l = i) ?ls = Some k"
    using assms(3,4,5) by (intro findIndex_primera) auto
  have r: "libros (cursos (reducer u s (REORDER_LIBROS cid i d)) ! j)
      = libros (reordenar_libros cid i d (cursos s ! j))"
    using assms(1) by simp
  have e: "libros (reordenar_libros cid i d (cursos s ! j)) =
     (if d = ''up'' \<and> 0 < k then ?ls[k - 1 := ?ls ! k, k := ?ls ! (k - 1)]
      else if d = ''down'' \<and> k + 1 < length ?ls then ?ls[k + 1 := ?ls ! k, k := ?ls ! (k + 1)]
      else ?ls)"
    using assms(2) f by (auto simp: reordenar_libros_def Let_def)
  have 1: "d = ''up'' \<and> k = 0 \<longrightarrow>
      libros (cursos (reducer u s (REORDER_LIBROS cid i d)) ! j) = ?ls"
    unfolding r e by simp
  have 2: "d = ''down'' \<and> k = length ?ls - 1 \<longrightarrow>
      libros (cursos (reducer u s (REORDER_LIBROS cid i d)) ! j) = ?ls"
    unfolding r e using assms(3) by auto
  have 3: "d = ''up'' \<and> 0 < k \<longrightarrow>
      libros (cursos (reducer u s (REORDER_LIBROS cid i d)) ! j)
        = ?ls[k - 1 := ?ls ! k, k := ?ls ! (k - 1)]"
    unfolding r e by simp
  have 4: "d = ''down'' \<and> k < length ?ls - 1 \<longrightarrow>
      libros (cursos (reducer u s (REORDER_LIBROS cid i d)) ! j)
        = ?ls[k + 1 := ?ls ! k, k := ?ls ! (k + 1)]"
    unfolding r e using assms(3) by auto
  have 5: "d \<noteq> ''up'' \<and> d \<noteq> ''down'' \<longrightarrow>
      libros (cursos (reducer u s (REORDER_LIBROS cid i d)) ! j) = ?ls"
    unfolding r e by simp
  have 6: "length (libros (cursos (reducer u s (REORDER_LIBROS cid i d)) ! j)) = length ?ls"
    unfolding r e by simp
  have 7: "\<forall>m < length ?ls.
      m \<noteq> k \<and> (d = ''up'' \<longrightarrow> m + 1 \<noteq> k) \<and> (d = ''down'' \<longrightarrow> m \<noteq> k + 1) \<longrightarrow>
      libros (cursos (reducer u s (REORDER_LIBROS cid i d)) ! j) ! m = ?ls ! m"
    unfolding r e by (auto simp: nth_list_update)
  from 1 2 3 4 5 6 7 show ?thesis by blast
qed

theorem REORDER_LIBROS_primera_aparicion_witness:
  "(0::nat) < length (cursos estado_prueba)
   \<and> curso_id (cursos estado_prueba ! 0) = ''c1''
   \<and> isbn (libros (cursos estado_prueba ! 0) ! 0) = ''9788499890944''
   \<and> isbn (libros (cursos estado_prueba ! 0) ! 1) = ''9780000000001''
   \<and> (1::nat) = length (libros (cursos estado_prueba ! 0)) - 1
   \<and> libros (cursos (reducer ''u'' estado_prueba
        (REORDER_LIBROS ''c1'' ''9788499890944'' ''up'')) ! 0)
       = libros (cursos estado_prueba ! 0)
   \<and> libros (cursos (reducer ''u'' estado_prueba
        (REORDER_LIBROS ''c1'' ''9780000000001'' ''down'')) ! 0)
       = libros (cursos estado_prueba ! 0)
   \<and> map isbn (libros (cursos (reducer ''u'' estado_prueba
        (REORDER_LIBROS ''c1'' ''9780000000001'' ''up'')) ! 0))
       = [''9780000000001'', ''9788499890944'']
   \<and> map isbn (libros (cursos (reducer ''u'' estado_prueba
        (REORDER_LIBROS ''c1'' ''9788499890944'' ''down'')) ! 0))
       = [''9780000000001'', ''9788499890944'']"
proof -
  let ?ls = "libros (cursos estado_prueba ! 0)"
  have j: "(0::nat) < length (cursos estado_prueba)"
    and c: "curso_id (cursos estado_prueba ! 0) = ''c1''"
    by (simp_all add: estado_prueba_def)
  have k0: "(0::nat) < length ?ls" and k1: "(1::nat) < length ?ls"
    by (simp_all add: estado_prueba_def)
  have i0: "isbn (?ls ! 0) = ''9788499890944''" and i1: "isbn (?ls ! 1) = ''9780000000001''"
    by (simp_all add: estado_prueba_def)
  have p0: "\<forall>m<(0::nat). isbn (?ls ! m) \<noteq> ''9788499890944''" by simp
  have p1: "\<forall>m<(1::nat). isbn (?ls ! m) \<noteq> ''9780000000001''"
    by (simp add: estado_prueba_def)
  have n: "(1::nat) = length ?ls - 1" by (simp add: estado_prueba_def)
  note U0 = REORDER_LIBROS_primera_aparicion [OF j c k0 i0 p0, of "''up''" "''u''"]
  note D0 = REORDER_LIBROS_primera_aparicion [OF j c k0 i0 p0, of "''down''" "''u''"]
  note U1 = REORDER_LIBROS_primera_aparicion [OF j c k1 i1 p1, of "''up''" "''u''"]
  note D1 = REORDER_LIBROS_primera_aparicion [OF j c k1 i1 p1, of "''down''" "''u''"]
  from U0 have c1: "libros (cursos (reducer ''u'' estado_prueba
        (REORDER_LIBROS ''c1'' ''9788499890944'' ''up'')) ! 0) = ?ls"
    by blast
  from D1 n have c2: "libros (cursos (reducer ''u'' estado_prueba
        (REORDER_LIBROS ''c1'' ''9780000000001'' ''down'')) ! 0) = ?ls"
    by blast
  from U1 have "libros (cursos (reducer ''u'' estado_prueba
        (REORDER_LIBROS ''c1'' ''9780000000001'' ''up'')) ! 0)
      = ?ls[1 - 1 := ?ls ! 1, 1 := ?ls ! (1 - 1)]"
    by simp
  then have c3: "map isbn (libros (cursos (reducer ''u'' estado_prueba
        (REORDER_LIBROS ''c1'' ''9780000000001'' ''up'')) ! 0))
       = [''9780000000001'', ''9788499890944'']"
    by (simp add: estado_prueba_def)
  from D0 n have "libros (cursos (reducer ''u'' estado_prueba
        (REORDER_LIBROS ''c1'' ''9788499890944'' ''down'')) ! 0)
      = ?ls[0 + 1 := ?ls ! 0, 0 := ?ls ! (0 + 1)]"
    by simp
  then have c4: "map isbn (libros (cursos (reducer ''u'' estado_prueba
        (REORDER_LIBROS ''c1'' ''9788499890944'' ''down'')) ! 0))
       = [''9780000000001'', ''9788499890944'']"
    by (simp add: estado_prueba_def)
  from j c i0 i1 n c1 c2 c3 c4 show ?thesis by blast
qed

text \<open>
  The claim as stated speaks of every ISBN present in the list. When the ISBN of the last
  element also occurs earlier, \<open>down\<close> acts on the earlier occurrence and the list changes.
\<close>

theorem REORDER_LIBROS_ultimo_counterexample:
  "reducer ''u'' estado_vacio (IMPORT_STATE estado_isbn_repetido) = estado_isbn_repetido
   \<and> isbn (last (libros (cursos estado_isbn_repetido ! 0))) = ''9788499890944''
   \<and> libros (cursos (reducer ''u'' estado_isbn_repetido
        (REORDER_LIBROS ''c1'' ''9788499890944'' ''down'')) ! 0)
       \<noteq> libros (cursos estado_isbn_repetido ! 0)"
  by (simp add: estado_isbn_repetido_def reordenar_libros_def)

section \<open>C9: removing a course\<close>

text \<open>
  Claim C9. \<open>DEL_CURSO\<close> checks no reference. In every state the reducer drops exactly the
  courses with the given id, leaves the classes and the students as they are (so a class
  that referenced the course stays, bound to a course that no longer exists), and sets
  the selected course to \<open>null\<close> when it was the removed id and keeps it otherwise; the
  selected class and student are kept. The guard is in the caller:
  \<open>confirmarBorradoCurso\<close> dispatches \<open>DEL_CURSO\<close> only when no class references the course.
\<close>

theorem DEL_CURSO_sin_comprobacion:
  "cursos (reducer u s (DEL_CURSO cid)) = filter (\<lambda>c. curso_id c \<noteq> cid) (cursos s)
   \<and> (\<forall>c \<in> set (cursos (reducer u s (DEL_CURSO cid))). curso_id c \<noteq> cid)
   \<and> clases (reducer u s (DEL_CURSO cid)) = clases s
   \<and> alumnos (reducer u s (DEL_CURSO cid)) = alumnos s
   \<and> cursoId (seleccion (reducer u s (DEL_CURSO cid))) =
       (if cursoId (seleccion s) = Some cid then None else cursoId (seleccion s))
   \<and> claseId (seleccion (reducer u s (DEL_CURSO cid))) = claseId (seleccion s)
   \<and> alumnoId (seleccion (reducer u s (DEL_CURSO cid))) = alumnoId (seleccion s)
   \<and> (\<forall>k \<in> set (clases s). clase_cursoId k = cid \<longrightarrow>
         k \<in> set (clases (reducer u s (DEL_CURSO cid)))
       \<and> (\<forall>c \<in> set (cursos (reducer u s (DEL_CURSO cid))). curso_id c \<noteq> clase_cursoId k))
   \<and> fst (confirmarBorradoCurso s c) =
       (if (\<exists>k \<in> set (clases s). clase_cursoId k = curso_id c) then []
        else [DEL_CURSO (curso_id c)])"
  by (simp add: confirmarBorradoCurso_def)

theorem DEL_CURSO_sin_comprobacion_witness:
  "(\<exists>k \<in> set (clases estado_prueba). clase_cursoId k = ''c1'')
   \<and> map curso_id (cursos (reducer ''u'' estado_prueba (DEL_CURSO ''c1''))) = [''c2'']
   \<and> clases (reducer ''u'' estado_prueba (DEL_CURSO ''c1'')) = clases estado_prueba
   \<and> cursoId (seleccion (reducer ''u'' estado_prueba (DEL_CURSO ''c1''))) = None
   \<and> fst (confirmarBorradoCurso estado_prueba (cursos estado_prueba ! 0)) = []"
proof -
  note T = DEL_CURSO_sin_comprobacion [of "''u''" estado_prueba "''c1''" "cursos estado_prueba ! 0"]
  have h: "\<exists>k \<in> set (clases estado_prueba). clase_cursoId k = ''c1''"
    by (simp add: estado_prueba_def)
  have h2: "\<exists>k \<in> set (clases estado_prueba). clase_cursoId k = curso_id (cursos estado_prueba ! 0)"
    by (simp add: estado_prueba_def)
  have s: "cursoId (seleccion estado_prueba) = Some ''c1''"
    by (simp add: estado_prueba_def)
  from T have "cursos (reducer ''u'' estado_prueba (DEL_CURSO ''c1''))
      = filter (\<lambda>c. curso_id c \<noteq> ''c1'') (cursos estado_prueba)" by blast
  then have c1: "map curso_id (cursos (reducer ''u'' estado_prueba (DEL_CURSO ''c1''))) = [''c2'']"
    by (simp add: estado_prueba_def)
  from T have c2: "clases (reducer ''u'' estado_prueba (DEL_CURSO ''c1'')) = clases estado_prueba"
    by blast
  from T have "cursoId (seleccion (reducer ''u'' estado_prueba (DEL_CURSO ''c1''))) =
       (if cursoId (seleccion estado_prueba) = Some ''c1'' then None
        else cursoId (seleccion estado_prueba))" by blast
  with s have c3: "cursoId (seleccion (reducer ''u'' estado_prueba (DEL_CURSO ''c1''))) = None"
    by simp
  from T have "fst (confirmarBorradoCurso estado_prueba (cursos estado_prueba ! 0)) =
       (if (\<exists>k \<in> set (clases estado_prueba). clase_cursoId k = curso_id (cursos estado_prueba ! 0))
        then [] else [DEL_CURSO (curso_id (cursos estado_prueba ! 0))])" by blast
  with h2 have c4: "fst (confirmarBorradoCurso estado_prueba (cursos estado_prueba ! 0)) = []"
    by simp
  from h c1 c2 c3 c4 show ?thesis by blast
qed

section \<open>C10: what marking and unmarking leave untouched\<close>

text \<open>
  Claim C10. \<open>MARCAR_LIBRO\<close> and \<open>DESMARCAR_LIBRO\<close> change nothing but the delivered list
  of the targeted student: courses, classes and selection are those of the input, the
  student list keeps its length, every student with another id is unchanged, and every
  student keeps id, name and class. When no student has the given id the whole snapshot
  is returned as it was; this is the case right after \<open>DEL_ALUMNO\<close> of that id.
\<close>

theorem marcar_desmarcar_frame:
  assumes "a = MARCAR_LIBRO aid b \<or> a = DESMARCAR_LIBRO aid b"
  shows "cursos (reducer u s a) = cursos s
       \<and> clases (reducer u s a) = clases s
       \<and> seleccion (reducer u s a) = seleccion s
       \<and> length (alumnos (reducer u s a)) = length (alumnos s)
       \<and> (\<forall>j < length (alumnos s).
            (alumno_id (alumnos s ! j) \<noteq> aid \<longrightarrow> alumnos (reducer u s a) ! j = alumnos s ! j)
          \<and> alumno_id (alumnos (reducer u s a) ! j) = alumno_id (alumnos s ! j)
          \<and> alumno_nombre (alumnos (reducer u s a) ! j) = alumno_nombre (alumnos s ! j)
          \<and> alumno_claseId (alumnos (reducer u s a) ! j) = alumno_claseId (alumnos s ! j))
       \<and> ((\<forall>x \<in> set (alumnos s). alumno_id x \<noteq> aid) \<longrightarrow> reducer u s a = s)
       \<and> reducer u' (reducer u s (DEL_ALUMNO aid)) a = reducer u s (DEL_ALUMNO aid)"
  using assms
proof
  assume a: "a = MARCAR_LIBRO aid b"
  have 1: "(\<forall>x \<in> set (alumnos s). alumno_id x \<noteq> aid) \<longrightarrow> reducer u s a = s"
    unfolding a using marcar_sin_alumno by blast
  have 2: "reducer u' (reducer u s (DEL_ALUMNO aid)) a = reducer u s (DEL_ALUMNO aid)"
    unfolding a by (rule marcar_sin_alumno) (rule sin_alumno_tras_borrar)
  have 3: "cursos (reducer u s a) = cursos s \<and> clases (reducer u s a) = clases s
       \<and> seleccion (reducer u s a) = seleccion s
       \<and> length (alumnos (reducer u s a)) = length (alumnos s)"
    by (simp add: a)
  have 4: "\<forall>j < length (alumnos s).
            (alumno_id (alumnos s ! j) \<noteq> aid \<longrightarrow> alumnos (reducer u s a) ! j = alumnos s ! j)
          \<and> alumno_id (alumnos (reducer u s a) ! j) = alumno_id (alumnos s ! j)
          \<and> alumno_nombre (alumnos (reducer u s a) ! j) = alumno_nombre (alumnos s ! j)
          \<and> alumno_claseId (alumnos (reducer u s a) ! j) = alumno_claseId (alumnos s ! j)"
    by (simp add: a marcar_frame)
  from 1 2 3 4 show ?thesis by blast
next
  assume a: "a = DESMARCAR_LIBRO aid b"
  have 1: "(\<forall>x \<in> set (alumnos s). alumno_id x \<noteq> aid) \<longrightarrow> reducer u s a = s"
    unfolding a using desmarcar_sin_alumno by blast
  have 2: "reducer u' (reducer u s (DEL_ALUMNO aid)) a = reducer u s (DEL_ALUMNO aid)"
    unfolding a by (rule desmarcar_sin_alumno) (rule sin_alumno_tras_borrar)
  have 3: "cursos (reducer u s a) = cursos s \<and> clases (reducer u s a) = clases s
       \<and> seleccion (reducer u s a) = seleccion s
       \<and> length (alumnos (reducer u s a)) = length (alumnos s)"
    by (simp add: a)
  have 4: "\<forall>j < length (alumnos s).
            (alumno_id (alumnos s ! j) \<noteq> aid \<longrightarrow> alumnos (reducer u s a) ! j = alumnos s ! j)
          \<and> alumno_id (alumnos (reducer u s a) ! j) = alumno_id (alumnos s ! j)
          \<and> alumno_nombre (alumnos (reducer u s a) ! j) = alumno_nombre (alumnos s ! j)
          \<and> alumno_claseId (alumnos (reducer u s a) ! j) = alumno_claseId (alumnos s ! j)"
    by (simp add: a desmarcar_frame)
  from 1 2 3 4 show ?thesis by blast
qed

theorem marcar_desmarcar_frame_witness:
  "(MARCAR_LIBRO ''a1'' ''9788499890944'' = MARCAR_LIBRO ''a1'' ''9788499890944''
      \<or> MARCAR_LIBRO ''a1'' ''9788499890944'' = DESMARCAR_LIBRO ''a1'' ''9788499890944'')
   \<and> (1::nat) < length (alumnos estado_prueba)
   \<and> alumno_id (alumnos estado_prueba ! 1) \<noteq> ''a1''
   \<and> alumnos (reducer ''u'' estado_prueba (MARCAR_LIBRO ''a1'' ''9788499890944'')) ! 1
       = alumnos estado_prueba ! 1
   \<and> seleccion (reducer ''u'' estado_prueba (MARCAR_LIBRO ''a1'' ''9788499890944''))
       = seleccion estado_prueba
   \<and> ''a9'' \<notin> set (map alumno_id (alumnos estado_prueba))
   \<and> reducer ''u'' estado_prueba (DESMARCAR_LIBRO ''a9'' ''9780000000001'') = estado_prueba"
proof -
  have h1: "MARCAR_LIBRO ''a1'' ''9788499890944'' = MARCAR_LIBRO ''a1'' ''9788499890944''
      \<or> MARCAR_LIBRO ''a1'' ''9788499890944'' = DESMARCAR_LIBRO ''a1'' ''9788499890944''"
    by simp
  have h2: "DESMARCAR_LIBRO ''a9'' ''9780000000001'' = MARCAR_LIBRO ''a9'' ''9780000000001''
      \<or> DESMARCAR_LIBRO ''a9'' ''9780000000001'' = DESMARCAR_LIBRO ''a9'' ''9780000000001''"
    by simp
  have h3: "(1::nat) < length (alumnos estado_prueba)"
    by (simp add: estado_prueba_def)
  have h4: "alumno_id (alumnos estado_prueba ! 1) \<noteq> ''a1''"
    by (simp add: estado_prueba_def)
  have h5: "\<forall>x \<in> set (alumnos estado_prueba). alumno_id x \<noteq> ''a9''"
    by (simp add: estado_prueba_def)
  note T1 = marcar_desmarcar_frame [OF h1, of "''u''" estado_prueba "''u''"]
  note T2 = marcar_desmarcar_frame [OF h2, of "''u''" estado_prueba "''u''"]
  from T1 h3 h4 have c1:
    "alumnos (reducer ''u'' estado_prueba (MARCAR_LIBRO ''a1'' ''9788499890944'')) ! 1
       = alumnos estado_prueba ! 1"
    by blast
  from T1 have c2:
    "seleccion (reducer ''u'' estado_prueba (MARCAR_LIBRO ''a1'' ''9788499890944''))
       = seleccion estado_prueba"
    by blast
  from T2 h5 have c3:
    "reducer ''u'' estado_prueba (DESMARCAR_LIBRO ''a9'' ''9780000000001'') = estado_prueba"
    by blast
  have h6: "''a9'' \<notin> set (map alumno_id (alumnos estado_prueba))"
    by (simp add: estado_prueba_def)
  from h1 h3 h4 h6 c1 c2 c3 show ?thesis by blast
qed

end
